theory Spec2Isabelle
  imports Complex_Main
begin

section \<open>Psychrometric functions of psych.h\<close>

text \<open>
  The C type \<open>double\<close> is modelled by \<^typ>\<open>real\<close>: every arithmetic operation is the
  exact one, without rounding, overflow, infinities or NaN. Division by zero, the
  logarithm of a non-positive number and a non-integer power of a negative number
  have no IEEE meaning in this model; a theorem whose truth depends on such a value
  carries a hypothesis that excludes it. The C functions \<open>exp\<close>, \<open>log\<close> and \<open>pow\<close> are
  \<^const>\<open>exp\<close>, \<^const>\<open>ln\<close>, and \<open>^\<close> for the exponents 2, 3 and 4 and \<^const>\<open>powr\<close>
  for the others.

  The C type \<open>int\<close> is the 32-bit two's-complement integer, modelled by the values
  \<open>-2\<^sup>3\<^sup>1, ..., 2\<^sup>3\<^sup>1 - 1\<close> of \<^typ>\<open>int\<close>. The conversion of an \<open>int\<close> to \<open>double\<close> is
  exact. The only integer arithmetic of the source is \<open>inValue - 32\<close>, which leaves
  the range for the 32 smallest values of \<open>inValue\<close>; the subtraction is written
  with its wrap-around (\<open>int32_wrap\<close> below).
\<close>

subsection \<open>Primitive property functions\<close>

definition part_press :: "real \<Rightarrow> real \<Rightarrow> real" where
  "part_press P W = P * W / (0.62198 + W)"

text \<open>
  In \<open>sat_press\<close> the initialiser \<open>TK = 173.15\<close> is overwritten by \<open>TK = Tdb + 273.15\<close>
  before any use.
\<close>

definition sat_press :: "real \<Rightarrow> real" where
  "sat_press Tdb =
     (let C1 = - 5674.5359;
          C2 = 6.3925247;
          C3 = - 0.009677843;
          C4 = 0.00000062215701;
          C5 = 2.0747825 / 10 ^ 9;
          C6 = - 9.484024 / 10 ^ 13;
          C7 = 4.1635019;
          C8 = - 5800.2206;
          C9 = 1.3914993;
          C10 = - 0.048640239;
          C11 = 0.000041764768;
          C12 = - 0.000000014452093;
          C13 = 6.5459673;
          TK = Tdb + 273.15
      in if TK \<le> 273.15
         then exp (C1 / TK + C2 + C3 * TK + C4 * TK ^ 2 + C5 * TK ^ 3 + C6 * TK ^ 4
                   + C7 * ln TK) / 1000
         else exp (C8 / TK + C9 + C10 * TK + C11 * TK ^ 2 + C12 * TK ^ 3
                   + C13 * ln TK) / 1000)"

definition hum_rat :: "real \<Rightarrow> real \<Rightarrow> real \<Rightarrow> real" where
  "hum_rat Tdb Twb P =
     (let Pws = sat_press Twb;
          Ws = 0.62198 * Pws / (P - Pws)
      in if Tdb \<ge> 0
         then ((2501 - 2.326 * Twb) * Ws - 1.006 * (Tdb - Twb))
              / (2501 + 1.86 * Tdb - 4.186 * Twb)
         else ((2830 - 0.24 * Twb) * Ws - 1.006 * (Tdb - Twb))
              / (2830 + 1.86 * Tdb - 2.1 * Twb))"

definition hum_rat2 :: "real \<Rightarrow> real \<Rightarrow> real \<Rightarrow> real" where
  "hum_rat2 Tdb RH P =
     (let Pws = sat_press Tdb
      in 0.62198 * RH * Pws / (P - RH * Pws))"

definition rel_hum :: "real \<Rightarrow> real \<Rightarrow> real \<Rightarrow> real" where
  "rel_hum Tdb Twb P =
     (let W = hum_rat Tdb Twb P
      in part_press P W / sat_press Tdb)"

definition rel_hum2 :: "real \<Rightarrow> real \<Rightarrow> real \<Rightarrow> real" where
  "rel_hum2 Tdb W P = part_press P W / sat_press Tdb"

definition enthalpy_air_h2o :: "real \<Rightarrow> real \<Rightarrow> real" where
  "enthalpy_air_h2o Tdb W = 1.006 * Tdb + W * (2501 + 1.86 * Tdb)"

definition dew_point :: "real \<Rightarrow> real \<Rightarrow> real" where
  "dew_point P W =
     (let C14 = 6.54;
          C15 = 14.526;
          C16 = 0.7389;
          C17 = 0.09486;
          C18 = 0.4569;
          Pw = part_press P W;
          alpha = ln Pw;
          Tdp1 = C14 + C15 * alpha + C16 * alpha ^ 2 + C17 * alpha ^ 3
                 + C18 * (Pw powr 0.1984);
          Tdp2 = 6.09 + 12.608 * alpha + 0.4959 * alpha ^ 2
      in if Tdp1 \<ge> 0 then Tdp1 else Tdp2)"

definition dry_air_density :: "real \<Rightarrow> real \<Rightarrow> real \<Rightarrow> real" where
  "dry_air_density P Tdb W =
     (let R_da = 287.055
      in 1000 * P / (R_da * (273.15 + Tdb) * (1 + 1.6078 * W)))"

definition STD_press :: "real \<Rightarrow> real" where
  "STD_press elevation = 101.325 * ((1 - 0.0000225577 * elevation) powr 5.2559)"

definition STD_temp :: "real \<Rightarrow> real" where
  "STD_temp elevation = 15 - 0.0065 * elevation"

subsection \<open>The wet-bulb solver\<close>

text \<open>
  Modelled from the spec: \<open>abs\<close> is called by \<open>wet_bulb\<close> on a \<open>double\<close>, and neither
  psych.h nor the header it includes (math.h) declares it. The spec's termination
  test takes the absolute value of the relative error, so \<open>abs\<close> is the absolute value
  of a real number here.
\<close>

definition abs_d :: "real \<Rightarrow> real" where
  "abs_d x = \<bar>x\<bar>"

text \<open>
  The body of the \<open>do\<close> loop declares \<open>double Wet_bulb = Wet_bulb - ...\<close>. This is a
  new variable of the block that hides the \<open>Wet_bulb\<close> of the function from its
  declarator on, so the \<open>Wet_bulb\<close> of its own initialiser is the new variable, whose
  content is indeterminate. The model takes that indeterminate content as the
  parameter \<open>junk\<close>: \<open>junk n\<close> is what the block's variable holds when iteration \<open>n\<close>
  declares it. Before the declaration (\<open>W_new2\<close>) and after the loop (\<open>return\<close>) the
  name denotes the variable of the function, which no statement assigns after its
  initialisation. The loop has no iteration bound, so the result is an option:
  \<open>None\<close> when the loop never exits.
\<close>

partial_function (option) wet_bulb_loop ::
  "(nat \<Rightarrow> real) \<Rightarrow> real \<Rightarrow> real \<Rightarrow> real \<Rightarrow> real \<Rightarrow> nat \<Rightarrow> real \<Rightarrow> real option" where
  "wet_bulb_loop junk Tdb P W_normal Wet_bulb n W_new =
     (let W_new2 = hum_rat Tdb (Wet_bulb - 0.001) P;
          dw_dtwb = (W_new - W_new2) / 0.001;
          Wet_bulb_inner = junk n - (W_new - W_normal) / dw_dtwb;
          W_new' = hum_rat Tdb Wet_bulb_inner P
      in if abs_d ((W_new' - W_normal) / W_normal) > 0.00001
         then wet_bulb_loop junk Tdb P W_normal Wet_bulb (Suc n) W_new'
         else Some Wet_bulb)"

definition wet_bulb :: "(nat \<Rightarrow> real) \<Rightarrow> real \<Rightarrow> real \<Rightarrow> real \<Rightarrow> real option" where
  "wet_bulb junk Tdb RH P =
     (let W_normal = hum_rat2 Tdb RH P;
          Wet_bulb = Tdb;
          W_new = hum_rat Tdb Wet_bulb P
      in wet_bulb_loop junk Tdb P W_normal Wet_bulb 0 W_new)"

subsection \<open>The dispatcher\<close>

text \<open>
  The local variables \<open>Twb\<close>, \<open>Dew\<close>, \<open>RH\<close>, \<open>W\<close>, \<open>h\<close> and \<open>out\<close> of \<open>psych\<close> are
  declared without an initialiser. The record below is the state of these variables;
  \<open>psych\<close> takes their indeterminate initial contents as the parameter \<open>u\<close>, so a read
  of a variable that no statement has assigned yields the corresponding field of \<open>u\<close>.
\<close>

record psych_locals =
  v_Twb :: real
  v_Dew :: real
  v_RH :: real
  v_W :: real
  v_h :: real
  v_out :: real

text \<open>
  The value that a 32-bit two's-complement \<open>int\<close> holds for the mathematical result
  \<open>x\<close> of an integer operation: \<open>x\<close> itself when it is in the range, and \<open>x\<close> reduced
  modulo \<open>2\<^sup>3\<^sup>2\<close> into the range otherwise. C leaves signed overflow undefined; the
  wrap-around is what the compiled subtraction of two's-complement hardware yields.
\<close>

definition int32_wrap :: "int \<Rightarrow> int" where
  "int32_wrap x = (x + 2147483648) mod 4294967296 - 2147483648"

text \<open>
  First statement of \<open>psych\<close>: \<open>if (SIq == 1) ... else ...\<close>. The result is the updated
  \<open>P\<close>, the updated \<open>Tdb\<close> and the locals. The parameter \<open>inValue\<close> is an \<open>int\<close>, so
  \<open>inValue - 32\<close> is a subtraction of 32-bit integers, whose result the division
  converts to \<open>double\<close>. A \<open>switch\<close> without a matching \<open>case\<close> does nothing.
\<close>

definition psych_normalize ::
  "real \<Rightarrow> real \<Rightarrow> int \<Rightarrow> int \<Rightarrow> int \<Rightarrow> psych_locals \<Rightarrow> real \<times> real \<times> psych_locals" where
  "psych_normalize P Tdb inValue inType SIq s =
     (if SIq = 1
      then (P / 1000, Tdb,
            if inType = 1 then s\<lparr>v_Twb := real_of_int inValue\<rparr>
            else if inType = 2 then s\<lparr>v_Dew := real_of_int inValue\<rparr>
            else if inType = 3 then s\<lparr>v_RH := real_of_int inValue\<rparr>
            else if inType = 4 then s\<lparr>v_W := real_of_int inValue\<rparr>
            else if inType = 7 then s\<lparr>v_h := real_of_int inValue\<rparr>
            else s)
      else (P * 4.4482216152605 / 0.0254 ^ 2 / 1000, (Tdb - 32) / 1.8,
            if inType = 1 then s\<lparr>v_Twb := real_of_int (int32_wrap (inValue - 32)) / 1.8\<rparr>
            else if inType = 2 then s\<lparr>v_Dew := real_of_int (int32_wrap (inValue - 32)) / 1.8\<rparr>
            else if inType = 3 then s\<lparr>v_RH := real_of_int inValue\<rparr>
            else if inType = 4 then s\<lparr>v_W := real_of_int inValue\<rparr>
            else if inType = 7
              then s\<lparr>v_h := real_of_int inValue * 1.055056 / 0.45359237 - 17.884444444\<rparr>
            else s))"

text \<open>
  Second statement: \<open>if (outType == 3 || outType == 1) switch (inType) ... else
  switch (inType) ...\<close>, on the updated \<open>P\<close> and \<open>Tdb\<close>. In the second \<open>switch\<close>,
  \<open>case 4\<close> has no statement and no \<open>break\<close>: control falls into \<open>case 7\<close>.
\<close>

definition psych_resolve :: "real \<Rightarrow> real \<Rightarrow> int \<Rightarrow> int \<Rightarrow> psych_locals \<Rightarrow> psych_locals" where
  "psych_resolve P Tdb inType outType s =
     (if outType = 3 \<or> outType = 1
      then (if inType = 1 then s\<lparr>v_RH := rel_hum Tdb (v_Twb s) P\<rparr>
            else if inType = 2 then s\<lparr>v_RH := sat_press (v_Dew s) / sat_press Tdb\<rparr>
            else if inType = 3 then s
            else if inType = 4 then s\<lparr>v_RH := part_press P (v_W s) / sat_press Tdb\<rparr>
            else if inType = 7
              then (let s' = s\<lparr>v_W := (1.006 * Tdb - v_h s) / (- (2501 + 1.86 * Tdb))\<rparr>
                    in s'\<lparr>v_RH := part_press P (v_W s') / sat_press Tdb\<rparr>)
            else s)
      else (if inType = 1 then s\<lparr>v_W := hum_rat Tdb (v_Twb s) P\<rparr>
            else if inType = 2
              then s\<lparr>v_W := 0.621945 * sat_press (v_Dew s) / (P - sat_press (v_Dew s))\<rparr>
            else if inType = 3 then s\<lparr>v_W := hum_rat2 Tdb (v_RH s) P\<rparr>
            else if inType = 4 \<or> inType = 7
              then s\<lparr>v_W := (1.006 * Tdb - v_h s) / (- (2501 + 1.86 * Tdb))\<rparr>
            else s))"

text \<open>
  Third statement: \<open>switch (outType)\<close>. Only \<open>case 1\<close> calls the wet-bulb solver, so
  only there can the dispatcher fail to return.
\<close>

definition psych_compute ::
  "(nat \<Rightarrow> real) \<Rightarrow> real \<Rightarrow> real \<Rightarrow> int \<Rightarrow> psych_locals \<Rightarrow> psych_locals option" where
  "psych_compute junk P Tdb outType s =
     (if outType = 1
        then (case wet_bulb junk Tdb (v_RH s) P of
                None \<Rightarrow> None
              | Some t \<Rightarrow> Some (s\<lparr>v_out := t\<rparr>))
      else if outType = 2 then Some (s\<lparr>v_out := dew_point P (v_W s)\<rparr>)
      else if outType = 3 then Some (s\<lparr>v_out := v_RH s\<rparr>)
      else if outType = 4 then Some (s\<lparr>v_out := v_W s\<rparr>)
      else if outType = 5 then Some (s\<lparr>v_out := part_press P (v_W s) * 1000\<rparr>)
      else if outType = 6 then Some (s\<lparr>v_out := v_W s / hum_rat2 Tdb 1 P\<rparr>)
      else if outType = 7 then Some (s\<lparr>v_out := enthalpy_air_h2o Tdb (v_W s)\<rparr>)
      else if outType = 8 then Some (s\<lparr>v_out := - 9999\<rparr>)
      else if outType = 9 then Some (s\<lparr>v_out := 1 / dry_air_density P Tdb (v_W s)\<rparr>)
      else if outType = 10
        then Some (s\<lparr>v_out := dry_air_density P Tdb (v_W s) * (1 + v_W s)\<rparr>)
      else Some s)"

text \<open>Fourth statement: \<open>if (SIq == 0) switch (outType)\<close>, on the variable \<open>out\<close>.\<close>

definition psych_denormalize :: "int \<Rightarrow> int \<Rightarrow> real \<Rightarrow> real" where
  "psych_denormalize outType SIq out =
     (if SIq = 0
      then (if outType = 1 then (1.8 * out) + 32
            else if outType = 2 then (1.8 * out) + 32
            else if outType = 5 then out * 0.0254 ^ 2 / 4.448230531
            else if outType = 7 then (out + 17.88444444444) * 0.45359237 / 1.055056
            else if outType = 9 then out * 0.45359265 / ((12 * 0.0254) ^ 3)
            else if outType = 10 then out * (12 * 0.0254) ^ 3 / 0.45359265
            else out)
      else out)"

definition psych ::
  "psych_locals \<Rightarrow> (nat \<Rightarrow> real) \<Rightarrow> real \<Rightarrow> real \<Rightarrow> int \<Rightarrow> int \<Rightarrow> int \<Rightarrow> int \<Rightarrow> real option" where
  "psych u junk P Tdb inValue inType outType SIq =
     (case psych_normalize P Tdb inValue inType SIq u of
        (P', Tdb', s1) \<Rightarrow>
          (case psych_compute junk P' Tdb' outType (psych_resolve P' Tdb' inType outType s1) of
             None \<Rightarrow> None
           | Some s3 \<Rightarrow> Some (psych_denormalize outType SIq (v_out s3))))"

subsection \<open>Expressions of the specification\<close>

text \<open>
  The definitions of this subsection follow the words of the specification, not the
  source. The theorems below compare them with the functions embedded from the
  source.
\<close>

text \<open>
  The ice-phase correlation \<open>exp (C1/TK + C2 + C3 TK + C4 TK\<^sup>2 + C5 TK\<^sup>3 + C6 TK\<^sup>4 + C7 ln TK)\<close>
  and the liquid-phase correlation with the coefficients \<open>C8\<close> to \<open>C13\<close>, both divided by
  1000. The liquid-phase correlation has six coefficients: it has no term in \<open>TK\<^sup>4\<close>.
\<close>

definition ice_correlation :: "real \<Rightarrow> real" where
  "ice_correlation TK =
     exp ((- 5674.5359) / TK + 6.3925247 + (- 0.009677843) * TK
          + 0.00000062215701 * TK ^ 2 + (2.0747825 / 10 ^ 9) * TK ^ 3
          + (- 9.484024 / 10 ^ 13) * TK ^ 4 + 4.1635019 * ln TK) / 1000"

definition liquid_correlation :: "real \<Rightarrow> real" where
  "liquid_correlation TK =
     exp ((- 5800.2206) / TK + 1.3914993 + (- 0.048640239) * TK
          + 0.000041764768 * TK ^ 2 + (- 0.000000014452093) * TK ^ 3
          + 6.5459673 * ln TK) / 1000"

text \<open>
  The humidity ratio of saturated air at the wet-bulb temperature, and the two
  energy-balance forms of the humidity ratio.
\<close>

definition sat_hum_rat :: "real \<Rightarrow> real \<Rightarrow> real" where
  "sat_hum_rat Twb P = 0.62198 * sat_press Twb / (P - sat_press Twb)"

definition hum_rat_above :: "real \<Rightarrow> real \<Rightarrow> real \<Rightarrow> real" where
  "hum_rat_above Tdb Twb Ws =
     ((2501 - 2.326 * Twb) * Ws - 1.006 * (Tdb - Twb)) / (2501 + 1.86 * Tdb - 4.186 * Twb)"

definition hum_rat_below :: "real \<Rightarrow> real \<Rightarrow> real \<Rightarrow> real" where
  "hum_rat_below Tdb Twb Ws =
     ((2830 - 0.24 * Twb) * Ws - 1.006 * (Tdb - Twb)) / (2830 + 1.86 * Tdb - 2.1 * Twb)"

text \<open>The two candidate fits of the dew point, in \<open>alpha = ln Pw\<close>.\<close>

definition Tdp1 :: "real \<Rightarrow> real \<Rightarrow> real" where
  "Tdp1 P W =
     (let Pw = part_press P W; alpha = ln Pw
      in 6.54 + 14.526 * alpha + 0.7389 * alpha ^ 2 + 0.09486 * alpha ^ 3
         + 0.4569 * (Pw powr 0.1984))"

definition Tdp2 :: "real \<Rightarrow> real \<Rightarrow> real" where
  "Tdp2 P W =
     (let alpha = ln (part_press P W)
      in 6.09 + 12.608 * alpha + 0.4959 * alpha ^ 2)"

text \<open>Locals whose indeterminate contents are all zero, for the concrete runs.\<close>

definition zero_locals :: psych_locals where
  "zero_locals = \<lparr>v_Twb = 0, v_Dew = 0, v_RH = 0, v_W = 0, v_h = 0, v_out = 0\<rparr>"

text \<open>
  A run of the solver at 20 degrees Celsius and 101.325 kPa: the relative humidity is
  the one whose wet-bulb temperature is 15 degrees, and the block's variable of the
  first iteration holds the content that makes the first update come out as 15.
\<close>

definition run_RH :: real where
  "run_RH = rel_hum 20 15 101.325"

definition run_junk :: "nat \<Rightarrow> real" where
  "run_junk n =
     15 + (hum_rat 20 20 101.325 - hum_rat2 20 run_RH 101.325)
          / ((hum_rat 20 20 101.325 - hum_rat 20 (20 - 0.001) 101.325) / 0.001)"

section \<open>Properties\<close>

subsection \<open>Saturation pressure\<close>

lemma sat_press_pos: "0 < sat_press T"
  by (simp add: sat_press_def Let_def)

text \<open>
  C8: \<open>sat_press Tdb\<close> takes \<open>TK = Tdb + 273.15\<close> and is the ice-phase correlation
  (coefficients C1 to C7) divided by 1000 for every \<open>Tdb\<close> with \<open>TK \<le> 273.15\<close>, and the
  liquid-phase correlation (coefficients C8 to C13) divided by 1000 for every \<open>Tdb\<close>
  with \<open>TK > 273.15\<close>. The two cases are exhaustive: the switch is at the freezing
  point and nothing blends the two correlations.
\<close>

theorem sat_press_regimes:
  "(Tdb + 273.15 \<le> 273.15 \<longrightarrow> sat_press Tdb = ice_correlation (Tdb + 273.15)) \<and>
   (Tdb + 273.15 > 273.15 \<longrightarrow> sat_press Tdb = liquid_correlation (Tdb + 273.15))"
  by (simp add: sat_press_def ice_correlation_def liquid_correlation_def Let_def)

theorem sat_press_regimes_witness:
  "(0::real) + 273.15 \<le> 273.15 \<and> sat_press 0 = ice_correlation 273.15 \<and>
   (1 / 1000 :: real) + 273.15 > 273.15 \<and> sat_press (1 / 1000) = liquid_correlation 273.151"
  using sat_press_regimes [of 0] sat_press_regimes [of "1 / 1000"] by simp

subsection \<open>Humidity ratio from the wet-bulb temperature\<close>

text \<open>
  C9: \<open>hum_rat Tdb Twb P\<close> is the above-freezing form (2501, 2.326, 4.186) for every
  \<open>Tdb \<ge> 0\<close>, \<open>Tdb = 0\<close> included, and the below-freezing form (2830, 0.24, 2.1) for
  every \<open>Tdb < 0\<close>, both on the saturation humidity ratio at \<open>Twb\<close>.
\<close>

theorem hum_rat_branches:
  "(Tdb \<ge> 0 \<longrightarrow> hum_rat Tdb Twb P = hum_rat_above Tdb Twb (sat_hum_rat Twb P)) \<and>
   (Tdb < 0 \<longrightarrow> hum_rat Tdb Twb P = hum_rat_below Tdb Twb (sat_hum_rat Twb P))"
  by (simp add: hum_rat_def hum_rat_above_def hum_rat_below_def sat_hum_rat_def Let_def)

theorem hum_rat_branches_witness:
  "(0::real) \<ge> 0 \<and>
   hum_rat 0 (- 3) 101.325 = hum_rat_above 0 (- 3) (sat_hum_rat (- 3) 101.325) \<and>
   (- 5 :: real) < 0 \<and>
   hum_rat (- 5) (- 7) 101.325 = hum_rat_below (- 5) (- 7) (sat_hum_rat (- 7) 101.325)"
  using hum_rat_branches [of 0 "- 3" "101.325"] hum_rat_branches [of "- 5" "- 7" "101.325"]
  by simp

subsection \<open>Dew point\<close>

lemma part_press_one: "part_press 2 0.62198 = 1"
  by (simp add: part_press_def)

lemma part_press_exp: "part_press (2 * exp (- 1)) 0.62198 = exp (- 1)"
  by (simp add: part_press_def)

lemma Tdp1_at_one: "Tdp1 2 0.62198 = 6.9969"
  unfolding Tdp1_def part_press_one Let_def by simp

lemma Tdp1_at_exp: "Tdp1 (2 * exp (- 1)) 0.62198 < 0"
proof -
  have e: "exp (- (124 / 625)) \<le> (1::real)" by simp
  have "Tdp1 (2 * exp (- 1)) 0.62198 = - (734196 / 100000) + (4569 / 10000) * exp (- (124 / 625))"
    unfolding Tdp1_def part_press_exp Let_def powr_def by simp
  with e show ?thesis by linarith
qed

lemma Tdp2_at_exp: "Tdp2 (2 * exp (- 1)) 0.62198 = - 6.0221"
  unfolding Tdp2_def part_press_exp Let_def by simp

text \<open>
  C7: \<open>dew_point P W\<close> takes \<open>alpha = ln (part_press P W)\<close>, evaluates both candidate
  fits and returns \<open>Tdp1\<close> exactly when \<open>Tdp1 \<ge> 0\<close>, and \<open>Tdp2\<close> otherwise: the choice
  is made on the sign of the computed candidate \<open>Tdp1\<close>.
\<close>

theorem dew_point_selection:
  "(Tdp1 P W \<ge> 0 \<longrightarrow> dew_point P W = Tdp1 P W) \<and>
   (Tdp1 P W < 0 \<longrightarrow> dew_point P W = Tdp2 P W)"
  by (simp add: dew_point_def Tdp1_def Tdp2_def Let_def)

theorem dew_point_selection_witness:
  "Tdp1 2 0.62198 \<ge> 0 \<and> dew_point 2 0.62198 = 6.9969 \<and>
   Tdp1 (2 * exp (- 1)) 0.62198 < 0 \<and> dew_point (2 * exp (- 1)) 0.62198 = - 6.0221"
  using dew_point_selection [of 2 "0.62198"]
    dew_point_selection [of "2 * exp (- 1)" "0.62198"]
    Tdp1_at_one Tdp1_at_exp Tdp2_at_exp
  by simp

subsection \<open>Humidity ratio and relative humidity\<close>

lemma rel_hum2_hum_rat2:
  assumes "P \<noteq> 0" and "P \<noteq> RH * sat_press Tdb"
  shows "rel_hum2 Tdb (hum_rat2 Tdb RH P) P = RH"
proof -
  define Pws where "Pws = sat_press Tdb"
  have pos: "Pws > 0" by (simp add: Pws_def sat_press_pos)
  have d: "P - RH * Pws \<noteq> 0" using assms by (simp add: Pws_def)
  have s: "0.62198 + 0.62198 * RH * Pws / (P - RH * Pws) = 0.62198 * P / (P - RH * Pws)"
    using d by (simp add: field_simps)
  have "P * (0.62198 * RH * Pws / (P - RH * Pws)) / (0.62198 * P / (P - RH * Pws)) = RH * Pws"
    using d assms(1) by (simp add: field_simps)
  then have "part_press P (hum_rat2 Tdb RH P) = RH * Pws"
    unfolding part_press_def hum_rat2_def Let_def Pws_def [symmetric] s .
  then show ?thesis using pos by (simp add: rel_hum2_def Pws_def)
qed

lemma hum_rat2_rel_hum2:
  assumes "P \<noteq> 0" and "0.62198 + W \<noteq> 0"
  shows "hum_rat2 Tdb (rel_hum2 Tdb W P) P = W"
proof -
  define Pws where "Pws = sat_press Tdb"
  define c where "c = 0.62198 + W"
  have pos: "Pws \<noteq> 0" using sat_press_pos [of Tdb] by (simp add: Pws_def)
  have c: "c \<noteq> 0" using assms(2) by (simp add: c_def)
  have e: "P * W / c / Pws * Pws = P * W / c"
    using pos by simp
  have d: "P - P * W / c = 0.62198 * P / c"
    using c by (simp add: c_def field_simps)
  have n: "0.62198 * P / c \<noteq> 0" using c assms(1) by simp
  have m: "0.62198 * (P * W / c) = W * (0.62198 * P / c)" by simp
  have "0.62198 * (P * W / c) / (0.62198 * P / c) = W"
    unfolding m using n by (rule nonzero_mult_div_cancel_right)
  then show ?thesis
    unfolding hum_rat2_def rel_hum2_def part_press_def Let_def Pws_def [symmetric]
      c_def [symmetric]
    by (simp only: mult.assoc e d)
qed

lemma part_press_saturated:
  assumes "P \<noteq> 0" "P \<noteq> sat_press T"
  shows "part_press P (hum_rat2 T 1 P) = sat_press T"
proof -
  have "rel_hum2 T (hum_rat2 T 1 P) P = 1" using assms by (simp add: rel_hum2_hum_rat2)
  then show ?thesis using sat_press_pos [of T] by (simp add: rel_hum2_def)
qed

lemma part_press_mono:
  assumes "0 \<le> P" "0 \<le> W" "W \<le> W'"
  shows "part_press P W \<le> part_press P W'"
proof -
  have "W * (0.62198 + W') \<le> W' * (0.62198 + W)" using assms(3) by (simp add: algebra_simps)
  then have "W / (0.62198 + W) \<le> W' / (0.62198 + W')"
    using assms(2,3) by (simp add: field_simps)
  then have "P * (W / (0.62198 + W)) \<le> P * (W' / (0.62198 + W'))"
    using assms(1) by (rule mult_left_mono)
  then show ?thesis by (simp add: part_press_def)
qed

text \<open>
  Bounds on the exponential, the logarithm and the saturation pressure at 15 and 20
  degrees Celsius, for the concrete runs. The exponential is bounded by repeated
  squaring from \<open>1 + x \<le> exp x \<le> 1 + x + x\<^sup>2\<close>.
\<close>

lemma exp_double_lower:
  fixes a b x :: real
  assumes "a \<le> exp x" "0 \<le> a" "b \<le> a * a"
  shows "b \<le> exp (2 * x)"
proof -
  have "a * a \<le> exp x * exp x" using assms(1,2) by (intro mult_mono) simp_all
  also have "\<dots> = exp (2 * x)" by (simp add: exp_add [symmetric])
  finally show ?thesis using assms(3) by linarith
qed

lemma exp_double_upper:
  fixes a b x :: real
  assumes "exp x \<le> a" "a * a \<le> b"
  shows "exp (2 * x) \<le> b"
proof -
  have "exp (2 * x) = exp x * exp x" by (simp add: exp_add [symmetric])
  also have "\<dots> \<le> a * a"
    using assms(1) exp_ge_zero [of x] by (intro mult_mono) linarith+
  finally show ?thesis using assms(2) by linarith
qed

lemma exp_587_lower: "(293.15::real) \<le> exp 5.87"
proof -
  have "(1 + 587 / 12800 :: real) \<le> exp (587 / 12800)" by (rule exp_ge_add_one_self)
  then have "(1.0458::real) \<le> exp (587 / 12800)" by simp
  then have "(1.0936::real) \<le> exp (2 * (587 / 12800))" by (rule exp_double_lower) simp_all
  then have "(1.0936::real) \<le> exp (587 / 6400)" by simp
  then have "(1.1959::real) \<le> exp (2 * (587 / 6400))" by (rule exp_double_lower) simp_all
  then have "(1.1959::real) \<le> exp (587 / 3200)" by simp
  then have "(1.4301::real) \<le> exp (2 * (587 / 3200))" by (rule exp_double_lower) simp_all
  then have "(1.4301::real) \<le> exp (587 / 1600)" by simp
  then have "(2.0451::real) \<le> exp (2 * (587 / 1600))" by (rule exp_double_lower) simp_all
  then have "(2.0451::real) \<le> exp (587 / 800)" by simp
  then have "(4.1824::real) \<le> exp (2 * (587 / 800))" by (rule exp_double_lower) simp_all
  then have "(4.1824::real) \<le> exp (587 / 400)" by simp
  then have "(17.492::real) \<le> exp (2 * (587 / 400))" by (rule exp_double_lower) simp_all
  then have "(17.492::real) \<le> exp (587 / 200)" by simp
  then have "(293.15::real) \<le> exp (2 * (587 / 200))" by (rule exp_double_lower) simp_all
  then show ?thesis by simp
qed

lemma ln_293_upper: "ln (293.15::real) \<le> 5.87"
proof -
  have "ln (293.15::real) \<le> ln (exp 5.87)" using exp_587_lower by (intro ln_mono) simp_all
  then show ?thesis by simp
qed

lemma exp_9_upper: "exp (9::real) \<le> 19683"
proof -
  have "exp (1::real) ^ 9 \<le> 3 ^ 9" by (rule power_mono) (simp_all add: exp_le)
  moreover have "exp (1::real) ^ 9 = exp 9" using exp_of_nat_mult [of 9 "1::real"] by simp
  ultimately show ?thesis by simp
qed

lemma exp_55_upper: "exp 5.5 \<le> (288.15 :: real)"
proof -
  have "exp 0.021484375 \<le> (1.021945953369140625 :: real)"
    using exp_bound [of "0.021484375 :: real"] by (simp add: power2_eq_square)
  then have "exp (2 * (0.021484375)) \<le> (1.0443736 :: real)" by (rule exp_double_upper) simp_all
  then have "exp 0.04296875 \<le> (1.0443736 :: real)" by simp
  then have "exp (2 * (0.04296875)) \<le> (1.0907163 :: real)" by (rule exp_double_upper) simp_all
  then have "exp 0.0859375 \<le> (1.0907163 :: real)" by simp
  then have "exp (2 * (0.0859375)) \<le> (1.1896621 :: real)" by (rule exp_double_upper) simp_all
  then have "exp 0.171875 \<le> (1.1896621 :: real)" by simp
  then have "exp (2 * (0.171875)) \<le> (1.415296 :: real)" by (rule exp_double_upper) simp_all
  then have "exp 0.34375 \<le> (1.415296 :: real)" by simp
  then have "exp (2 * (0.34375)) \<le> (2.0030628 :: real)" by (rule exp_double_upper) simp_all
  then have "exp 0.6875 \<le> (2.0030628 :: real)" by simp
  then have "exp (2 * (0.6875)) \<le> (4.0122606 :: real)" by (rule exp_double_upper) simp_all
  then have "exp 1.375 \<le> (4.0122606 :: real)" by simp
  then have "exp (2 * (1.375)) \<le> (16.0982352 :: real)" by (rule exp_double_upper) simp_all
  then have "exp 2.75 \<le> (16.0982352 :: real)" by simp
  then have "exp (2 * (2.75)) \<le> (288.15 :: real)" by (rule exp_double_upper) simp_all
  then have "exp 5.5 \<le> (288.15 :: real)" by simp
  then show ?thesis .
qed

lemma exp_637_lower: "(500 :: real) \<le> exp 6.37"
proof -
  have "(1.049765625 :: real) \<le> exp 0.049765625"
    using exp_ge_add_one_self [of "0.049765625 :: real"] by simp
  then have "(1.1020078 :: real) \<le> exp (2 * (0.049765625))" by (rule exp_double_lower) simp_all
  then have "(1.1020078 :: real) \<le> exp 0.09953125" by simp
  then have "(1.2144211 :: real) \<le> exp (2 * (0.09953125))" by (rule exp_double_lower) simp_all
  then have "(1.2144211 :: real) \<le> exp 0.1990625" by simp
  then have "(1.4748186 :: real) \<le> exp (2 * (0.1990625))" by (rule exp_double_lower) simp_all
  then have "(1.4748186 :: real) \<le> exp 0.398125" by simp
  then have "(2.1750899 :: real) \<le> exp (2 * (0.398125))" by (rule exp_double_lower) simp_all
  then have "(2.1750899 :: real) \<le> exp 0.79625" by simp
  then have "(4.731016 :: real) \<le> exp (2 * (0.79625))" by (rule exp_double_lower) simp_all
  then have "(4.731016 :: real) \<le> exp 1.5925" by simp
  then have "(22.3825123 :: real) \<le> exp (2 * (1.5925))" by (rule exp_double_lower) simp_all
  then have "(22.3825123 :: real) \<le> exp 3.185" by simp
  then have "(500 :: real) \<le> exp (2 * (3.185))" by (rule exp_double_lower) simp_all
  then have "(500 :: real) \<le> exp 6.37" by simp
  then show ?thesis .
qed

lemma ln_288_lower: "5.5 \<le> ln (288.15::real)"
proof -
  have "ln (exp (5.5::real)) \<le> ln 288.15" using exp_55_upper by (intro ln_mono) simp_all
  then show ?thesis by simp
qed

lemma ln_288_upper: "ln (288.15::real) \<le> 5.87"
proof -
  have "ln (288.15::real) \<le> ln 293.15" by simp
  with ln_293_upper show ?thesis by linarith
qed

lemma sat_press_15: "sat_press 15 = exp (- 5800.2206 / 288.15 + 1.3914993 + - 0.048640239 * 288.15
      + 0.000041764768 * 288.15 ^ 2 + - 0.000000014452093 * 288.15 ^ 3
      + 6.5459673 * ln 288.15) / 1000"
  by (simp add: sat_press_def Let_def)

lemma sat_press_20: "sat_press 20 = exp (- 5800.2206 / 293.15 + 1.3914993 + - 0.048640239 * 293.15
      + 0.000041764768 * 293.15 ^ 2 + - 0.000000014452093 * 293.15 ^ 3
      + 6.5459673 * ln 293.15) / 1000"
  by (simp add: sat_press_def Let_def)

lemma sat_press_20_upper: "sat_press 20 \<le> 19.683"
proof -
  have "sat_press 20 \<le> exp 9 / 1000"
    unfolding sat_press_20 using ln_293_upper by (simp add: power2_eq_square power3_eq_cube)
  with exp_9_upper show ?thesis by simp
qed

lemma sat_press_15_lower: "0.5 \<le> sat_press 15"
proof -
  have "exp 6.37 / 1000 \<le> sat_press 15"
    unfolding sat_press_15 using ln_288_lower by (simp add: power2_eq_square power3_eq_cube)
  with exp_637_lower show ?thesis by simp
qed

lemma sat_press_15_upper: "sat_press 15 \<le> 19.683"
proof -
  have "sat_press 15 \<le> exp 9 / 1000"
    unfolding sat_press_15 using ln_288_upper by (simp add: power2_eq_square power3_eq_cube)
  with exp_9_upper show ?thesis by simp
qed

lemma sat_press_15_20: "1.2 * sat_press 15 \<le> sat_press 20"
proof -
  define E15 :: real where "E15 = - 5800.2206 / 288.15 + 1.3914993 + - 0.048640239 * 288.15
      + 0.000041764768 * 288.15 ^ 2 + - 0.000000014452093 * 288.15 ^ 3
      + 6.5459673 * ln 288.15"
  define E20 :: real where "E20 = - 5800.2206 / 293.15 + 1.3914993 + - 0.048640239 * 293.15
      + 0.000041764768 * 293.15 ^ 2 + - 0.000000014452093 * 293.15 ^ 3
      + 6.5459673 * ln 293.15"
  have l: "ln (5763 / 20 :: real) \<le> ln (5863 / 20)" by simp
  have d: "0.2 \<le> E20 - E15"
    unfolding E15_def E20_def
    apply (simp add: power2_eq_square power3_eq_cube)
    using l by linarith
  have "1.2 \<le> exp (E20 - E15)"
    using exp_ge_add_one_self [of "E20 - E15"] d by linarith
  then have "1.2 * exp E15 \<le> exp (E20 - E15) * exp E15"
    by (intro mult_right_mono) simp_all
  also have "\<dots> = exp E20" by (simp add: exp_add [symmetric])
  finally show ?thesis
    unfolding sat_press_15 sat_press_20 E15_def [symmetric] E20_def [symmetric] by simp
qed

text \<open>
  C6: for every \<open>(P, Tdb, RH)\<close> with \<open>P > 0\<close>, \<open>0 \<le> RH \<le> 1\<close> and
  \<open>P > RH * sat_press Tdb\<close>, the relative humidity computed by \<open>rel_hum2\<close> from the
  humidity ratio that \<open>hum_rat2\<close> computes from \<open>RH\<close> is \<open>RH\<close> within \<open>1e-4\<close>. (On
  real numbers the two are equal, lemma \<open>rel_hum2_hum_rat2\<close>.)
\<close>

theorem rel_hum2_hum_rat2_round_trip:
  "P > 0 \<Longrightarrow> 0 \<le> RH \<Longrightarrow> RH \<le> 1 \<Longrightarrow> P > RH * sat_press Tdb \<Longrightarrow>
   \<bar>rel_hum2 Tdb (hum_rat2 Tdb RH P) P - RH\<bar> \<le> 1 / 10 ^ 4"
  by (simp add: rel_hum2_hum_rat2)

theorem rel_hum2_hum_rat2_round_trip_witness:
  "(101.325::real) > 0 \<and> (0::real) \<le> 1 / 2 \<and> (1 / 2 :: real) \<le> 1 \<and>
   101.325 > 1 / 2 * sat_press 20 \<and>
   \<bar>rel_hum2 20 (hum_rat2 20 (1 / 2) 101.325) 101.325 - 1 / 2\<bar> \<le> 1 / 10 ^ 4"
proof -
  have h: "(101.325::real) > 1 / 2 * sat_press 20" using sat_press_20_upper by simp
  have "(101.325::real) > 0" "(0::real) \<le> 1 / 2" "(1 / 2 :: real) \<le> 1" by simp_all
  from rel_hum2_hum_rat2_round_trip [OF this h] h show ?thesis by simp
qed

subsection \<open>The wet-bulb solver\<close>

text \<open>
  The variable \<open>Wet_bulb\<close> of the function is the fifth argument of the loop; every
  recursive call passes it on unchanged, and it is what the loop returns.
\<close>

lemma wet_bulb_loop_result:
  assumes "wet_bulb_loop junk Tdb P W_normal Wet_bulb n W_new = Some t"
  shows "t = Wet_bulb"
proof -
  have "t = snd (fst (fst ((((((junk, Tdb), P), W_normal), Wet_bulb), n), W_new)))"
    using assms
  proof (rule wet_bulb_loop.raw_induct [rotated])
    fix loop :: "(nat \<Rightarrow> real) \<Rightarrow> real \<Rightarrow> real \<Rightarrow> real \<Rightarrow> real \<Rightarrow> nat \<Rightarrow> real \<Rightarrow> real option"
    fix junk Tdb P W_normal Wet_bulb n W_new t
    assume IH: "\<And>junk Tdb P W_normal Wet_bulb n W_new t.
       loop junk Tdb P W_normal Wet_bulb n W_new = Some t \<Longrightarrow>
       t = snd (fst (fst ((((((junk, Tdb), P), W_normal), Wet_bulb), n), W_new)))"
    assume step: "(let W_new2 = hum_rat Tdb (Wet_bulb - 1 / 10 ^ 3) P;
          dw_dtwb = (W_new - W_new2) / (1 / 10 ^ 3);
          Wet_bulb_inner = junk n - (W_new - W_normal) / dw_dtwb;
          W_new' = hum_rat Tdb Wet_bulb_inner P
      in if 1 / 10 ^ 5 < abs_d ((W_new' - W_normal) / W_normal)
         then loop junk Tdb P W_normal Wet_bulb (Suc n) W_new'
         else Some Wet_bulb) = Some t"
    from step IH [of junk Tdb P W_normal Wet_bulb "Suc n" _ t]
    show "t = snd (fst (fst ((((((junk, Tdb), P), W_normal), Wet_bulb), n), W_new)))"
      by (simp add: Let_def split: if_splits)
  qed
  then show ?thesis by simp
qed

lemma wet_bulb_result: "wet_bulb junk Tdb RH P = Some t \<Longrightarrow> t = Tdb"
  by (auto simp: wet_bulb_def Let_def dest: wet_bulb_loop_result)

text \<open>
  At saturation the humidity ratio of \<open>hum_rat\<close> at \<open>Twb = Tdb\<close> is that of \<open>hum_rat2\<close>
  at \<open>RH = 1\<close>, and the relative humidity of \<open>rel_hum\<close> at \<open>Twb = Tdb\<close> is 1.
\<close>

lemma hum_rat_saturated:
  assumes "- 100 \<le> T" "T \<le> 200"
  shows "hum_rat T T P = hum_rat2 T 1 P"
proof (cases "T \<ge> 0")
  case True
  have "2501 + 1.86 * T - 4.186 * T = 2501 - 2.326 * T" by simp
  moreover have "2501 - 2.326 * T \<noteq> 0" using assms by simp
  ultimately show ?thesis using True
    by (simp add: hum_rat_def hum_rat2_def Let_def)
next
  case False
  have "2830 + 1.86 * T - 2.1 * T = 2830 - 0.24 * T" by simp
  moreover have "2830 - 0.24 * T \<noteq> 0" using False by simp
  ultimately show ?thesis using False
    by (simp add: hum_rat_def hum_rat2_def Let_def)
qed

lemma rel_hum_saturated:
  assumes "- 100 \<le> T" "T \<le> 200" "P \<noteq> 0" "P \<noteq> sat_press T"
  shows "rel_hum T T P = 1"
proof -
  have "rel_hum T T P = rel_hum2 T (hum_rat2 T 1 P) P"
    using assms(1,2) by (simp add: rel_hum_def rel_hum2_def Let_def hum_rat_saturated)
  also have "\<dots> = 1" using assms(3,4) by (simp add: rel_hum2_hum_rat2)
  finally show ?thesis .
qed

text \<open>
  The concrete run: the loop exits after its first iteration and the solver returns
  20, the relative humidity of the run lies between 0 and 5/6, and the returned value
  fails the termination test of the loop.
\<close>

lemma hum_rat2_one: "hum_rat2 T 1 P = sat_hum_rat T P"
  by (simp add: hum_rat2_def sat_hum_rat_def Let_def)

lemma run_Ws15: "0.003 \<le> sat_hum_rat 15 101.325"
proof -
  have "0 < 101.325 - sat_press 15" using sat_press_15_upper by simp
  moreover have "0.003 * (101.325 - sat_press 15) \<le> 0.62198 * sat_press 15"
    using sat_press_15_lower by simp
  ultimately have "0.003 \<le> 0.62198 * sat_press 15 / (101.325 - sat_press 15)"
    by (simp add: pos_le_divide_eq)
  then show ?thesis by (simp add: sat_hum_rat_def)
qed

lemma run_W0_eq:
  "hum_rat 20 15 101.325 = (2466.11 * sat_hum_rat 15 101.325 - 5.03) / 2475.41"
  unfolding hum_rat_def Let_def sat_hum_rat_def [symmetric] by simp

lemma run_W0: "0 < hum_rat 20 15 101.325 \<and> hum_rat 20 15 101.325 \<le> sat_hum_rat 15 101.325"
  unfolding run_W0_eq using run_Ws15 by simp

lemma run_RH_eq: "run_RH = rel_hum2 20 (hum_rat 20 15 101.325) 101.325"
  by (simp add: run_RH_def rel_hum_def rel_hum2_def Let_def)

lemma run_W_normal: "hum_rat2 20 run_RH 101.325 = hum_rat 20 15 101.325"
  unfolding run_RH_eq using run_W0 by (intro hum_rat2_rel_hum2) simp_all

lemma run_junk_eq:
  "run_junk n =
     15 + (hum_rat 20 20 101.325 - hum_rat 20 15 101.325)
          / ((hum_rat 20 20 101.325 - hum_rat 20 (20 - 0.001) 101.325) / 0.001)"
  unfolding run_junk_def run_W_normal ..

lemma run_returns: "wet_bulb run_junk 20 run_RH 101.325 = Some 20"
  unfolding wet_bulb_def Let_def run_W_normal
  by (subst wet_bulb_loop.simps) (simp add: Let_def abs_d_def run_junk_eq)

lemma run_RH_range: "0 \<le> run_RH \<and> run_RH \<le> 5 / 6"
proof -
  have b: "0 < sat_press 20" by (rule sat_press_pos)
  have "0 \<le> part_press 101.325 (hum_rat 20 15 101.325)"
    using run_W0 by (simp add: part_press_def)
  then have lo: "0 \<le> run_RH" using b by (simp add: run_RH_eq rel_hum2_def)
  have "part_press 101.325 (hum_rat 20 15 101.325) \<le> part_press 101.325 (hum_rat2 15 1 101.325)"
    unfolding hum_rat2_one using run_W0 by (intro part_press_mono) simp_all
  also have "\<dots> = sat_press 15"
    using sat_press_15_upper by (intro part_press_saturated) simp_all
  also have "\<dots> \<le> 5 / 6 * sat_press 20" using sat_press_15_20 by simp
  finally have "run_RH \<le> 5 / 6" using b by (simp add: run_RH_eq rel_hum2_def field_simps)
  with lo show ?thesis by simp
qed

lemma run_test_fails:
  "abs_d ((hum_rat 20 20 101.325 - hum_rat2 20 run_RH 101.325) / hum_rat2 20 run_RH 101.325)
     > 0.00001"
proof -
  define a where "a = sat_press 15"
  define b where "b = sat_press 20"
  define da where "da = 101.325 - a"
  define db where "db = 101.325 - b"
  define W0 where "W0 = hum_rat 20 15 101.325"
  have a: "0 < a" "a \<le> 19.683" using sat_press_pos sat_press_15_upper by (simp_all add: a_def)
  have b: "b \<le> 19.683" "1.2 * a \<le> b"
    using sat_press_20_upper sat_press_15_20 by (simp_all add: a_def b_def)
  have d: "0 < db" "db \<le> da" "0 < da" using a b by (simp_all add: da_def db_def)
  have W0: "0 < W0" "W0 \<le> 0.62198 * a / da"
    using run_W0 by (simp_all add: W0_def sat_hum_rat_def a_def da_def)
  have "1.2 * (0.62198 * a / da) = 0.62198 * (1.2 * a) / da" by simp
  also have "\<dots> \<le> 0.62198 * b / da"
    using b d by (intro divide_right_mono mult_left_mono) simp_all
  also have "\<dots> \<le> 0.62198 * b / db"
    using a b d by (intro divide_left_mono mult_pos_pos) simp_all
  finally have "1.2 * W0 \<le> 0.62198 * b / db" using W0(2) by linarith
  moreover have "hum_rat 20 20 101.325 = 0.62198 * b / db"
    using hum_rat_saturated [of 20 "101.325"] by (simp add: hum_rat2_def b_def db_def Let_def)
  ultimately have "0.2 * W0 \<le> hum_rat 20 20 101.325 - W0" by linarith
  then have "2 / 10 \<le> (hum_rat 20 20 101.325 - W0) / W0"
    using W0(1) by (simp add: pos_le_divide_eq)
  then have "1 / 100000 < \<bar>(hum_rat 20 20 101.325 - W0) / W0\<bar>" by linarith
  then show ?thesis unfolding run_W_normal W0_def [symmetric] abs_d_def by simp
qed

text \<open>
  C2 (the code differs): the claim has every iteration replace the running guess by
  the Newton update and has the solver return the updated guess. In the code the
  update is stored in a new variable of the loop body, and the guess of the function
  keeps its initial value: whenever \<open>wet_bulb\<close> returns, it returns \<open>Tdb\<close>, whatever
  \<open>RH\<close>, \<open>P\<close> and the indeterminate contents are. In the concrete run the
  returned value 20 does not pass the termination test that ended the loop.
\<close>

theorem wet_bulb_returns_initial_guess:
  "wet_bulb junk Tdb RH P = Some t \<Longrightarrow> t = Tdb"
  by (rule wet_bulb_result)

theorem wet_bulb_returns_initial_guess_witness:
  "wet_bulb run_junk 20 run_RH 101.325 = Some 20 \<and> (20::real) = 20 \<and>
   0 \<le> run_RH \<and> run_RH \<le> 5 / 6 \<and>
   abs_d ((hum_rat 20 20 101.325 - hum_rat2 20 run_RH 101.325) / hum_rat2 20 run_RH 101.325)
     > 0.00001"
  using wet_bulb_returns_initial_guess [OF run_returns] run_returns run_RH_range
    run_test_fails
  by simp

text \<open>
  C3 (the code differs): the claim has \<open>rel_hum\<close> of the solver's result recover \<open>RH\<close>.
  In the code, whenever \<open>wet_bulb\<close> returns on a dry-bulb temperature between -100 and
  200 and a pressure above the saturation pressure, \<open>rel_hum\<close> of its result is 1,
  whatever \<open>RH\<close> was. In the concrete run \<open>RH\<close> is at most 5/6.
\<close>

theorem rel_hum_wet_bulb_is_one:
  "wet_bulb junk Tdb RH P = Some t \<Longrightarrow> - 100 \<le> Tdb \<Longrightarrow> Tdb \<le> 200 \<Longrightarrow>
   P > sat_press Tdb \<Longrightarrow> rel_hum Tdb t P = 1"
  using sat_press_pos [of Tdb]
  by (auto dest!: wet_bulb_result intro!: rel_hum_saturated)

theorem rel_hum_wet_bulb_is_one_witness:
  "wet_bulb run_junk 20 run_RH 101.325 = Some 20 \<and> (- 100 :: real) \<le> 20 \<and>
   (20::real) \<le> 200 \<and> 101.325 > sat_press 20 \<and>
   rel_hum 20 20 101.325 = 1 \<and> 0 \<le> run_RH \<and> run_RH \<le> 5 / 6"
proof -
  have p: "(101.325::real) > sat_press 20" using sat_press_20_upper by simp
  have "(- 100 :: real) \<le> 20" "(20::real) \<le> 200" by simp_all
  from rel_hum_wet_bulb_is_one [OF run_returns this p] run_returns p run_RH_range
  show ?thesis by simp
qed

subsection \<open>The dispatcher\<close>

text \<open>
  C5: for every input with \<open>outType = 8\<close> (entropy) \<open>psych\<close> returns the sentinel
  \<open>-9999\<close>, whatever the unit selector: the conversion of the output leaves a value
  of tag 8 unchanged.
\<close>

theorem psych_Entropy_sentinel:
  "psych u junk P Tdb inValue inType 8 SIq = Some (- 9999) \<and>
   psych_denormalize 8 SIq out = out"
  by (simp add: psych_def psych_compute_def psych_denormalize_def split: prod.splits)


text \<open>
  At the smallest \<open>int\<close> the subtraction wraps around: the Fahrenheit value
  \<open>-2147483648\<close> is normalised as \<open>2147483616 / 1.8\<close>.
\<close>

lemma psych_normalize_wraps:
  "v_Twb (snd (snd (psych_normalize P Tdb (- 2147483648) 1 0 s))) = 2147483616 / 1.8"
  by (simp add: psych_normalize_def int32_wrap_def)





text \<open>
  C1 (the code differs): the claim has the humidity ratio of the output computation
  be \<open>inValue\<close> when \<open>inType = 4\<close> and \<open>outType\<close> is neither 1 nor 3. In the code
  \<open>case 4\<close> of that \<open>switch\<close> falls into \<open>case 7\<close>, which overwrites \<open>W\<close> with the
  inversion of the enthalpy equation on the variable \<open>h\<close>, which no statement has
  assigned. For these tags the result of \<open>psych\<close> does not depend on \<open>inValue\<close>, and
  for \<open>inType = outType = 4\<close> in SI units it is that inversion.
\<close>

theorem psych_HumidityRatio_fallthrough:
  "(outType \<noteq> 3 \<and> outType \<noteq> 1 \<longrightarrow>
      v_W (psych_resolve P' Tdb' 4 outType s)
        = (1.006 * Tdb' - v_h s) / (- (2501 + 1.86 * Tdb')) \<and>
      psych u junk P Tdb inValue 4 outType SIq = psych u junk P Tdb inValue' 4 outType SIq) \<and>
   psych u junk P Tdb inValue 4 4 1 = Some ((1.006 * Tdb - v_h u) / (- (2501 + 1.86 * Tdb)))"
  by (simp add: psych_def psych_normalize_def psych_resolve_def psych_compute_def
      psych_denormalize_def)

theorem psych_HumidityRatio_fallthrough_witness:
  "(4::int) \<noteq> 3 \<and> (4::int) \<noteq> 1 \<and>
   v_W (psych_resolve 101.325 20 4 4 (zero_locals\<lparr>v_W := 1\<rparr>)) = - (20.12 / 2538.2) \<and>
   psych zero_locals (\<lambda>n. 0) 101325 20 1 4 4 1 = psych zero_locals (\<lambda>n. 0) 101325 20 0 4 4 1 \<and>
   psych zero_locals (\<lambda>n. 0) 101325 20 1 4 4 1 = Some (- (20.12 / 2538.2))"
  using psych_HumidityRatio_fallthrough
      [of 4 "101.325" 20 "zero_locals\<lparr>v_W := 1\<rparr>" zero_locals "\<lambda>n. 0" 101325 20 1 1 0]
  by (auto simp: zero_locals_def)

text \<open>
  C4 (the code differs): the claim has each Imperial output conversion invert the
  corresponding Imperial input conversion. For the pressure the input conversion of
  \<open>P\<close> takes the pound-force as 4.4482216152605 N and the output conversion of the
  vapour pressure (tag 5) takes it as 4.448230531 N: a vapour pressure of 101325 Pa,
  converted to PSI by the output conversion and normalised by the input conversion,
  is \<open>101.325 * (4.4482216152605 / 4.448230531)\<close> kPa, and differs from the value
  101.325 kPa that the SI normalisation gives by more than one part in a million,
  far above the rounding of a \<open>double\<close>.
\<close>

theorem pressure_round_trip_mismatch:
  "fst (psych_normalize 101325 20 0 3 1 zero_locals) = 101.325 \<and>
   fst (psych_normalize (psych_denormalize 5 0 101325) 20 0 3 0 zero_locals)
     = 101.325 * (4.4482216152605 / 4.448230531) \<and>
   \<bar>fst (psych_normalize (psych_denormalize 5 0 101325) 20 0 3 0 zero_locals)
      - fst (psych_normalize 101325 20 0 3 1 zero_locals)\<bar>
     > fst (psych_normalize 101325 20 0 3 1 zero_locals) / 10 ^ 6"
  by (simp add: psych_normalize_def psych_denormalize_def)

end
